theory Spec2Isabelle
  imports Complex_Main "HOL-Library.Signed_Division" "HOL-Library.Word"
begin

section \<open>Quantities, machine integers and strings\<close>

text \<open>
  \<^verbatim>\<open>resource.Quantity\<close> is an exact decimal number with in-place \<^verbatim>\<open>Add\<close>, \<^verbatim>\<open>Sub\<close> and
  \<^verbatim>\<open>Cmp\<close>, which work on its numeric value: a \<open>quantity\<close>.
\<close>

type_synonym quantity = rat

text \<open>
  A \<^verbatim>\<open>Quantity\<close> holds its number in one of two forms: an \<^verbatim>\<open>int64Amount\<close>, an \<^verbatim>\<open>int64\<close>
  value with a decimal scale (an \<^verbatim>\<open>int32\<close>), standing for \<open>value * 10 ^ scale\<close>, or an
  \<^verbatim>\<open>infDecAmount\<close>, a decimal of arbitrary precision. The zero \<^verbatim>\<open>Quantity\<close> is the
  \<^verbatim>\<open>int64Amount\<close> with value 0 and scale 0. The quantities a machine or a workload
  reports are held in the form in which they were read.
\<close>

datatype amount = Int64Amount "64 word" "32 word" | InfDecAmount rat

fun num :: "amount \<Rightarrow> quantity" where
  "num (Int64Amount v s) =
     (if 0 \<le> sint s then of_int (sint v) * 10 ^ nat (sint s)
      else of_int (sint v) / 10 ^ nat (- sint s))"
| "num (InfDecAmount d) = d"

text \<open>
  \<^verbatim>\<open>positiveScaleInt64\<close> multiplies by ten \<^verbatim>\<open>scale\<close> times and fails as soon as a product
  leaves the \<^verbatim>\<open>int64\<close> range, that is, when the final product does.
\<close>

definition positiveScaleInt64 :: "int \<Rightarrow> int \<Rightarrow> int option" where
  "positiveScaleInt64 base scale =
     (let v = base * 10 ^ nat scale
      in if - (2 ^ 63) \<le> v \<and> v < 2 ^ 63 then Some v else None)"

text \<open>
  \<^verbatim>\<open>Quantity.AsInt64\<close> fails on the arbitrary-precision form and on a negative scale,
  whatever the number is; on scale 0 it returns the value.
\<close>

fun AsInt64 :: "amount \<Rightarrow> int option" where
  "AsInt64 (InfDecAmount d) = None"
| "AsInt64 (Int64Amount v s) =
     (if sint s = 0 then Some (sint v)
      else if sint s < 0 then None
      else positiveScaleInt64 (sint v) (sint s))"

text \<open>
  The ways in which a call ends without returning: the panics of the code and of the
  runtime and, last, the runtime's fatal error when an allocation finds no memory.
\<close>

datatype panic =
    InvalidGPUResourceFormat
  | InvalidMemoryResourceFormat
  | IntegerDivideByZero
  | MakesliceLenOutOfRange
  | IndexOutOfRange
  | FatalOutOfMemory

text \<open>Go's \<^verbatim>\<open>int64\<close> quotient: truncated towards zero, wrapping, panicking on a zero divisor.\<close>

definition int64_wrap :: "int \<Rightarrow> int" where
  "int64_wrap k = (k + 2 ^ 63) mod 2 ^ 64 - 2 ^ 63"

definition int64_quo :: "int \<Rightarrow> int \<Rightarrow> panic + int" where
  "int64_quo a b = (if b = 0 then Inl IntegerDivideByZero else Inr (int64_wrap (a sdiv b)))"

definition is_digit :: "char \<Rightarrow> bool" where
  "is_digit c = ((48::nat) \<le> of_char c \<and> of_char c \<le> (57::nat))"

definition parse_digits :: "string \<Rightarrow> nat option" where
  "parse_digits s =
     (if s = [] \<or> \<not> list_all is_digit s then None
      else Some (foldl (\<lambda>n c. n * 10 + (of_char c - 48)) 0 s))"

text \<open>
  \<^verbatim>\<open>strconv.Atoi\<close>: an optional sign, then at least one decimal digit and nothing else;
  the value has to fit the 64-bit \<^verbatim>\<open>int\<close>.
\<close>

definition Atoi :: "string \<Rightarrow> int option" where
  "Atoi s =
     (case s of
        [] \<Rightarrow> None
      | c # cs \<Rightarrow>
          (case parse_digits (if c = CHR ''-'' \<or> c = CHR ''+'' then cs else s) of
             None \<Rightarrow> None
           | Some n \<Rightarrow>
               (let v = (if c = CHR ''-'' then - int n else int n)
                in if - (2 ^ 63) \<le> v \<and> v < 2 ^ 63 then Some v else None)))"

definition digit_char :: "nat \<Rightarrow> char" where
  "digit_char n = ''0123456789'' ! n"

fun digits10 :: "nat \<Rightarrow> string" where
  "digits10 n =
     (if n < 10 then [digit_char n] else digits10 (n div 10) @ [digit_char (n mod 10)])"

declare digits10.simps [simp del]

text \<open>\<^verbatim>\<open>strconv.Itoa\<close>: the base-10 text of an \<^verbatim>\<open>int\<close>.\<close>

definition Itoa :: "int \<Rightarrow> string" where
  "Itoa i = (if i < 0 then CHR ''-'' # digits10 (nat (- i)) else digits10 (nat i))"

section \<open>Workloads and machines\<close>

definition GPUResourceName :: string where
  "GPUResourceName = ''nvidia.flex.com/gpu''"

definition MemResourceName :: string where
  "MemResourceName = ''nvidia.flex.com/memory''"

definition GPUIndexAnnotationKey :: string where
  "GPUIndexAnnotationKey = ''nvidia.flex.com/index''"

record container =
  Limits :: "string \<rightharpoonup> amount"

text \<open>A pod's annotation map may be \<^verbatim>\<open>nil\<close> (\<open>None\<close>).\<close>

record pod =
  Containers :: "container list"
  Annotations :: "(string \<rightharpoonup> string) option"

record nodeInfo =
  Allocatable :: "string \<rightharpoonup> amount"
  Pods :: "pod list"

text \<open>Reading a Go map: the zero value and \<^verbatim>\<open>false\<close> for a missing key, also on a nil map.\<close>

definition annotation :: "pod \<Rightarrow> string \<Rightarrow> string \<times> bool" where
  "annotation p k =
     (case Annotations p of
        None \<Rightarrow> ([], False)
      | Some m \<Rightarrow> (case m k of None \<Rightarrow> ([], False) | Some v \<Rightarrow> (v, True)))"

definition allocatable :: "nodeInfo \<Rightarrow> string \<Rightarrow> amount" where
  "allocatable ni k = (case Allocatable ni k of None \<Rightarrow> Int64Amount 0 0 | Some q \<Rightarrow> q)"

fun podResourceLimit_loop ::
  "string \<Rightarrow> container list \<Rightarrow> quantity \<times> bool \<Rightarrow> quantity \<times> bool" where
  "podResourceLimit_loop name [] acc = acc"
| "podResourceLimit_loop name (c # cs) (resourceLimitSum, exist) =
     (case Limits c name of
        Some q \<Rightarrow> podResourceLimit_loop name cs (resourceLimitSum + num q, True)
      | None \<Rightarrow> podResourceLimit_loop name cs (resourceLimitSum, exist))"

definition podResourceLimit :: "string \<Rightarrow> pod \<Rightarrow> quantity \<times> bool" where
  "podResourceLimit name p = podResourceLimit_loop name (Containers p) (0, False)"

fun nodeResourceLimitSum_loop :: "string \<Rightarrow> pod list \<Rightarrow> quantity \<Rightarrow> quantity" where
  "nodeResourceLimitSum_loop name [] resourceLimitSum = resourceLimitSum"
| "nodeResourceLimitSum_loop name (p # ps) resourceLimitSum =
     nodeResourceLimitSum_loop name ps (resourceLimitSum + fst (podResourceLimit name p))"

definition nodeResourceLimitSum :: "string \<Rightarrow> nodeInfo \<Rightarrow> quantity" where
  "nodeResourceLimitSum name ni = nodeResourceLimitSum_loop name (Pods ni) 0"

section \<open>The machine model\<close>

text \<open>
  The fields \<^verbatim>\<open>memory\<close> and \<^verbatim>\<open>usedMemory\<close> of a \<^verbatim>\<open>gpu\<close> are pointers to quantities, and
  \<^verbatim>\<open>Add\<close> and \<^verbatim>\<open>Sub\<close> update the quantity pointed to. The quantities live in a store,
  a list indexed by address; a field holds an address.
\<close>

type_synonym addr = nat
type_synonym heap = "quantity list"

record gpu =
  index :: int
  monopoly :: bool
  memory :: addr
  usedMemory :: addr

record gpuNode =
  gpuCount :: amount
  memoryTotal :: amount
  gpus :: "gpu list"

text \<open>\<^verbatim>\<open>resource.NewQuantity\<close>: a fresh cell.\<close>

definition NewQuantity :: "quantity \<Rightarrow> heap \<Rightarrow> addr \<times> heap" where
  "NewQuantity v h = (length h, h @ [v])"

text \<open>The first loop of \<^verbatim>\<open>constructGPUs\<close>: every unit shares the cell \<open>memEachGPU\<close>.\<close>

definition new_gpu :: "addr \<Rightarrow> gpu list \<times> heap \<Rightarrow> nat \<Rightarrow> gpu list \<times> heap" where
  "new_gpu memEachGPU st i =
     (case st of (gs, h) \<Rightarrow>
        (case NewQuantity 0 h of (used, h') \<Rightarrow>
           (gs @ [\<lparr>index = int i, monopoly = False, memory = memEachGPU, usedMemory = used\<rparr>],
            h')))"

text \<open>The body of the loop over the pods already on the machine.\<close>

definition place_pod :: "pod \<Rightarrow> gpu list \<times> heap \<Rightarrow> panic + (gpu list \<times> heap)" where
  "place_pod p st =
     (case st of (gs, h) \<Rightarrow>
      (case podResourceLimit GPUResourceName p of (gpuLimit, gpuExist) \<Rightarrow>
      (case podResourceLimit MemResourceName p of (memLimit, memExist) \<Rightarrow>
        if \<not> gpuExist \<and> \<not> memExist then Inr (gs, h)
        else
          (case annotation p GPUIndexAnnotationKey of (val, hasAnnotation) \<Rightarrow>
            (case Atoi val of
               None \<Rightarrow> Inr (gs, h)
             | Some i \<Rightarrow>
                 if \<not> hasAnnotation then Inr (gs, h)
                 else if gpuExist \<and> \<not> (0 \<le> i \<and> i < int (length gs)) then Inl IndexOutOfRange
                 else
                   (let gs' = (if gpuExist then gs[nat i := (gs ! nat i)\<lparr>monopoly := True\<rparr>]
                               else gs)
                    in if memExist
                       then if \<not> (0 \<le> i \<and> i < int (length gs')) then Inl IndexOutOfRange
                            else (let a = usedMemory (gs' ! nat i)
                                  in Inr (gs', h[a := h ! a + memLimit]))
                       else Inr (gs', h)))))))"

fun place_pods :: "pod list \<Rightarrow> gpu list \<times> heap \<Rightarrow> panic + (gpu list \<times> heap)" where
  "place_pods [] st = Inr st"
| "place_pods (p # ps) st =
     (case place_pod p st of Inl e \<Rightarrow> Inl e | Inr st' \<Rightarrow> place_pods ps st')"

text \<open>
  \<^verbatim>\<open>make([]*gpu, cnt)\<close> panics with \<^verbatim>\<open>makeslice: len out of range\<close> when the length is
  negative or when its bytes, 8 for each pointer, exceed the runtime's \<^verbatim>\<open>maxAlloc\<close>,
  \<open>2 ^ 48\<close> on the 64-bit platforms. \<^verbatim>\<open>int\<close> is 64 bits wide there, so \<^verbatim>\<open>int(gpuCnt)\<close> is
  \<^verbatim>\<open>gpuCnt\<close>.
\<close>

definition maxAlloc :: int where
  "maxAlloc = 2 ^ 48"

definition ptrSize :: int where
  "ptrSize = 8"

text \<open>
  Below that bound the allocation succeeds when the process has the memory, which the
  environment decides: \<open>room\<close> is the largest number of units for which it has.
\<close>

definition constructGPUs ::
  "int \<Rightarrow> int \<Rightarrow> addr \<Rightarrow> pod list \<Rightarrow> heap \<Rightarrow> panic + (gpu list \<times> heap)" where
  "constructGPUs room cnt memEachGPU pods h =
     (if cnt < 0 \<or> maxAlloc < cnt * ptrSize then Inl MakesliceLenOutOfRange
      else if room < cnt then Inl FatalOutOfMemory
      else place_pods pods (foldl (new_gpu memEachGPU) ([], h) [0..<nat cnt]))"

definition NewGPUNode :: "int \<Rightarrow> nodeInfo \<Rightarrow> panic + (gpuNode \<times> heap)" where
  "NewGPUNode room ni =
     (let gpuAllocatable = allocatable ni GPUResourceName
      in case AsInt64 gpuAllocatable of
           None \<Rightarrow> Inl InvalidGPUResourceFormat
         | Some gpuCnt \<Rightarrow>
             (let memAllocatable = allocatable ni MemResourceName
              in case AsInt64 memAllocatable of
                   None \<Rightarrow> Inl InvalidMemoryResourceFormat
                 | Some memCnt \<Rightarrow>
                     (case int64_quo memCnt gpuCnt of
                        Inl e \<Rightarrow> Inl e
                      | Inr each \<Rightarrow>
                          (case NewQuantity (of_int each) [] of (memEachGPU, h) \<Rightarrow>
                             (case constructGPUs room gpuCnt memEachGPU (Pods ni) h of
                                Inl e \<Rightarrow> Inl e
                              | Inr (gs, h') \<Rightarrow>
                                  Inr (\<lparr>gpuCount = gpuAllocatable,
                                        memoryTotal = memAllocatable,
                                        gpus = gs\<rparr>, h'))))))"

section \<open>The fit finders\<close>

text \<open>
  \<^verbatim>\<open>sort.Slice\<close> is not a stable sort in general. On a short slice (up to six elements
  in every Go release, fewer than twelve since Go 1.19) it is a straight insertion sort:
  each element moves left while it is less than its left neighbour. That is what is
  modelled. The prefix is kept reversed, so that the left neighbour is its head.
\<close>

fun sift :: "('a \<Rightarrow> 'a \<Rightarrow> bool) \<Rightarrow> 'a \<Rightarrow> 'a list \<Rightarrow> 'a list" where
  "sift lt x [] = [x]"
| "sift lt x (y # ys) = (if lt x y then y # sift lt x ys else x # y # ys)"

definition sort_Slice :: "('a \<Rightarrow> 'a \<Rightarrow> bool) \<Rightarrow> 'a list \<Rightarrow> 'a list" where
  "sort_Slice lt xs = rev (foldl (\<lambda>acc x. sift lt x acc) [] xs)"

text \<open>
  The loop of \<^verbatim>\<open>MemAssumeFitIndexes\<close>. \<^verbatim>\<open>assumed\<close> is the pointer \<^verbatim>\<open>u.usedMemory\<close> and
  \<^verbatim>\<open>remain\<close> is the pointer \<^verbatim>\<open>u.memory\<close>, so \<^verbatim>\<open>Add\<close> and \<^verbatim>\<open>Sub\<close> write to the unit's own
  cells; a fit holds the address \<^verbatim>\<open>remain\<close>.
\<close>

fun MemAssumeFitIndexes_loop ::
  "quantity \<Rightarrow> gpu list \<Rightarrow> (int \<times> addr) list \<times> heap \<Rightarrow> (int \<times> addr) list \<times> heap" where
  "MemAssumeFitIndexes_loop memLimit [] st = st"
| "MemAssumeFitIndexes_loop memLimit (u # us) (fits, h) =
     (let assumed = usedMemory u;
          h1 = h[assumed := h ! assumed + memLimit]
      in if \<not> monopoly u \<and> h1 ! memory u \<ge> h1 ! assumed
         then (let remain = memory u;
                   h2 = h1[remain := h1 ! remain - h1 ! assumed]
               in MemAssumeFitIndexes_loop memLimit us (fits @ [(index u, remain)], h2))
         else MemAssumeFitIndexes_loop memLimit us (fits, h1))"

definition MemAssumeFitIndexes :: "gpuNode \<Rightarrow> heap \<Rightarrow> quantity \<Rightarrow> int list \<times> heap" where
  "MemAssumeFitIndexes n h memLimit =
     (case MemAssumeFitIndexes_loop memLimit (gpus n) ([], h) of (fits, h') \<Rightarrow>
        (map fst (sort_Slice (\<lambda>f g. h' ! snd f < h' ! snd g) fits), h'))"

fun GPUAssumeFitIndexes_loop :: "heap \<Rightarrow> gpu list \<Rightarrow> int list \<Rightarrow> int list" where
  "GPUAssumeFitIndexes_loop h [] fits = fits"
| "GPUAssumeFitIndexes_loop h (u # us) fits =
     (if \<not> monopoly u \<and> h ! usedMemory u = 0
      then GPUAssumeFitIndexes_loop h us (fits @ [index u])
      else GPUAssumeFitIndexes_loop h us fits)"

definition GPUAssumeFitIndexes :: "gpuNode \<Rightarrow> heap \<Rightarrow> quantity \<Rightarrow> int list \<times> heap" where
  "GPUAssumeFitIndexes n h gpuLimit = (GPUAssumeFitIndexes_loop h (gpus n) [], h)"

text \<open>What a unit holds: its capacity and its used bytes, read through the pointers.\<close>

definition capacityBytes :: "heap \<Rightarrow> gpu \<Rightarrow> quantity" where
  "capacityBytes h u = h ! memory u"

definition usedBytes :: "heap \<Rightarrow> gpu \<Rightarrow> quantity" where
  "usedBytes h u = h ! usedMemory u"

section \<open>The plugin's entry points\<close>

datatype code = Error | Unschedulable | UnschedulableAndUnresolvable

text \<open>A \<^verbatim>\<open>*framework.Status\<close>: \<^verbatim>\<open>nil\<close> (\<open>None\<close>) is success.\<close>

type_synonym status = "(code \<times> string) option"

definition Filter :: "int \<Rightarrow> pod \<Rightarrow> nodeInfo \<Rightarrow> panic + status" where
  "Filter room p ni =
     (case podResourceLimit GPUResourceName p of (gpuLimit, gpuLimitExist) \<Rightarrow>
     (case podResourceLimit MemResourceName p of (memLimit, memLimitExist) \<Rightarrow>
       if \<not> gpuLimitExist \<and> \<not> memLimitExist then Inr None
       else if gpuLimitExist \<and> memLimitExist
       then Inr (Some (UnschedulableAndUnresolvable, ''pod conflict resources''))
       else
         (case Allocatable ni GPUResourceName of
            None \<Rightarrow> Inr (Some (UnschedulableAndUnresolvable, ''unknown resource type''))
          | Some gpuAllocatable \<Rightarrow>
         (case Allocatable ni MemResourceName of
            None \<Rightarrow> Inr (Some (UnschedulableAndUnresolvable, ''unknown resource type''))
          | Some memAllocatable \<Rightarrow>
              (let gpuAssumeLimitSum = nodeResourceLimitSum GPUResourceName ni + gpuLimit;
                   memAssumeLimitSum = nodeResourceLimitSum MemResourceName ni + memLimit
               in if gpuAssumeLimitSum > num gpuAllocatable
                  then Inr (Some (Unschedulable, ''insufficient resource '' @ GPUResourceName))
                  else if memAssumeLimitSum > num memAllocatable
                  then Inr (Some (Unschedulable, ''insufficient resource '' @ MemResourceName))
                  else
                    (case NewGPUNode room ni of
                       Inl e \<Rightarrow> Inl e
                     | Inr (no, h) \<Rightarrow>
                         if memLimitExist
                         then (case MemAssumeFitIndexes no h memLimit of (indexes, h') \<Rightarrow>
                                 if indexes = []
                                 then Inr (Some (Unschedulable,
                                        ''no fit indexes resource '' @ MemResourceName))
                                 else Inr None)
                         else Inr None))))))"

text \<open>
  The snapshot's lookup of a machine by name gives the machine or an error text.
  \<^verbatim>\<open>Reserve\<close> returns its status and the pod, whose annotations it may have written.
\<close>

definition set_index :: "pod \<Rightarrow> int \<Rightarrow> pod" where
  "set_index p i =
     p\<lparr>Annotations :=
         Some ((case Annotations p of None \<Rightarrow> Map.empty | Some m \<Rightarrow> m)
                 (GPUIndexAnnotationKey \<mapsto> Itoa i))\<rparr>"

definition Reserve ::
  "int \<Rightarrow> (string \<Rightarrow> string + nodeInfo) \<Rightarrow> pod \<Rightarrow> string \<Rightarrow> panic + (status \<times> pod)"
  where
  "Reserve room snapshot p nodeName =
     (case snapshot nodeName of
        Inl err \<Rightarrow>
          Inr (Some (Error,
                 ''getting node '' @ [CHR 0x22] @ nodeName @ [CHR 0x22]
                   @ '' from Snapshot: '' @ err), p)
      | Inr ni \<Rightarrow>
     (case podResourceLimit GPUResourceName p of (gpuLimit, gpuLimitExist) \<Rightarrow>
     (case podResourceLimit MemResourceName p of (memLimit, memLimitExist) \<Rightarrow>
       if \<not> gpuLimitExist \<and> \<not> memLimitExist then Inr (None, p)
       else if gpuLimitExist \<and> memLimitExist
       then Inr (Some (UnschedulableAndUnresolvable, ''pod conflict resources''), p)
       else
         (case NewGPUNode room ni of
            Inl e \<Rightarrow> Inl e
          | Inr (no, h) \<Rightarrow>
              (case (if gpuLimitExist
                     then (case GPUAssumeFitIndexes no h gpuLimit of (indexes, h1) \<Rightarrow>
                             if indexes = []
                             then Inl (Some (Unschedulable,
                                    ''allocate index fail '' @ GPUResourceName), p)
                             else Inr (set_index p (hd indexes), h1))
                     else Inr (p, h)) of
                 Inl r \<Rightarrow> Inr r
               | Inr (p1, h1) \<Rightarrow>
                   if memLimitExist
                   then (case MemAssumeFitIndexes no h1 memLimit of (indexes, h2) \<Rightarrow>
                           if indexes = []
                           then Inr (Some (Unschedulable,
                                  ''allocate index fail '' @ MemResourceName), p1)
                           else Inr (None, set_index p1 (hd indexes)))
                   else Inr (None, p1))))))"

definition Unreserve :: "pod \<Rightarrow> pod" where
  "Unreserve p =
     p\<lparr>Annotations := map_option (\<lambda>m. m(GPUIndexAnnotationKey := None)) (Annotations p)\<rparr>"

section \<open>The shared-memory fit as the specification words it\<close>

text \<open>
  Candidates are the units without the exclusive lock whose used bytes plus the request
  stay within the capacity, ordered by the headroom left, equal headrooms in unit order.
\<close>

definition headroom :: "heap \<Rightarrow> quantity \<Rightarrow> gpu \<Rightarrow> quantity" where
  "headroom h requested u = capacityBytes h u - (usedBytes h u + requested)"

definition MemFit_spec :: "gpuNode \<Rightarrow> heap \<Rightarrow> quantity \<Rightarrow> int list" where
  "MemFit_spec n h requested =
     map index
       (sort_key (headroom h requested)
          (filter (\<lambda>u. \<not> monopoly u \<and> usedBytes h u + requested \<le> capacityBytes h u)
             (gpus n)))"

section \<open>The invariant of a freshly built model\<close>

text \<open>
  Unit \<open>i\<close> carries index \<open>i\<close>, every unit's \<^verbatim>\<open>memory\<close> is cell 0 and unit \<open>i\<close>'s
  \<^verbatim>\<open>usedMemory\<close> is cell \<open>i + 1\<close>.
\<close>

definition units_wf :: "gpu list \<Rightarrow> heap \<Rightarrow> bool" where
  "units_wf gs h \<longleftrightarrow>
     length h = Suc (length gs) \<and>
     (\<forall>i<length gs. index (gs ! i) = int i \<and> memory (gs ! i) = 0 \<and> usedMemory (gs ! i) = Suc i)"

section \<open>Machines and workloads used as test inputs\<close>

text \<open>A whole number held with scale 0, as a count or a number of bytes is read.\<close>

definition whole :: "64 word \<Rightarrow> amount" where
  "whole v = Int64Amount v 0"

definition shared_pod :: "amount \<Rightarrow> (string \<rightharpoonup> string) option \<Rightarrow> pod" where
  "shared_pod q ann =
     \<lparr>Containers = [\<lparr>Limits = [MemResourceName \<mapsto> q]\<rparr>], Annotations = ann\<rparr>"

definition exclusive_pod :: "amount \<Rightarrow> (string \<rightharpoonup> string) option \<Rightarrow> pod" where
  "exclusive_pod q ann =
     \<lparr>Containers = [\<lparr>Limits = [GPUResourceName \<mapsto> q]\<rparr>], Annotations = ann\<rparr>"

definition plain_pod :: pod where
  "plain_pod = \<lparr>Containers = [\<lparr>Limits = Map.empty\<rparr>], Annotations = None\<rparr>"

definition conflicting_pod :: pod where
  "conflicting_pod =
     \<lparr>Containers = [\<lparr>Limits = [GPUResourceName \<mapsto> whole 1]\<rparr>,
                    \<lparr>Limits = [MemResourceName \<mapsto> whole 2]\<rparr>],
      Annotations = None\<rparr>"

definition machine :: "amount \<Rightarrow> amount \<Rightarrow> pod list \<Rightarrow> nodeInfo" where
  "machine g m ps =
     \<lparr>Allocatable = [GPUResourceName \<mapsto> g, MemResourceName \<mapsto> m], Pods = ps\<rparr>"

text \<open>
  Two units and 16 bytes, 8 for each unit; one placed workload holds 3 bytes of unit 1.
\<close>

definition node_two_units :: nodeInfo where
  "node_two_units =
     machine (whole 2) (whole 16)
       [shared_pod (whole 3) (Some [GPUIndexAnnotationKey \<mapsto> ''1''])]"

definition two_units :: gpuNode where
  "two_units =
     \<lparr>gpuCount = whole 2, memoryTotal = whole 16,
      gpus = [\<lparr>index = 0, monopoly = False, memory = 0, usedMemory = 1\<rparr>,
              \<lparr>index = 1, monopoly = False, memory = 0, usedMemory = 2\<rparr>]\<rparr>"

text \<open>What the units of a model hold, in unit order.\<close>

definition capacities :: "gpuNode \<times> heap \<Rightarrow> quantity list" where
  "capacities m = map (capacityBytes (snd m)) (gpus (fst m))"

definition usedAll :: "gpuNode \<times> heap \<Rightarrow> quantity list" where
  "usedAll m = map (usedBytes (snd m)) (gpus (fst m))"

text \<open>A workload declares a resource when some container has a limit for it.\<close>

definition declares :: "pod \<Rightarrow> bool" where
  "declares p \<longleftrightarrow>
     snd (podResourceLimit GPUResourceName p) \<or> snd (podResourceLimit MemResourceName p)"

text \<open>A snapshot that knows one machine under every name.\<close>

definition single_machine :: "nodeInfo \<Rightarrow> string \<Rightarrow> string + nodeInfo" where
  "single_machine ni nodeName = Inr ni"

text \<open>Two idle units and 17 bytes: 8 for each unit, one byte left over.\<close>

definition odd_units :: gpuNode where
  "odd_units = two_units\<lparr>memoryTotal := whole 17\<rparr>"

text \<open>The placed workload names unit 2 of a machine with units 0 and 1.\<close>

definition node_bad_index :: nodeInfo where
  "node_bad_index =
     machine (whole 2) (whole 16)
       [shared_pod (whole 3) (Some [GPUIndexAnnotationKey \<mapsto> ''2''])]"

section \<open>Building the model: shape and invariant\<close>

lemma new_gpus_shape:
  "foldl (new_gpu m) ([], h) [0..<n] =
     (map (\<lambda>i. \<lparr>index = int i, monopoly = False, memory = m, usedMemory = length h + i\<rparr>) [0..<n],
      h @ replicate n 0)"
proof (induction n)
  case 0
  show ?case by simp
next
  case (Suc n)
  then show ?case
    by (simp add: new_gpu_def NewQuantity_def replicate_append_same)
qed

lemma new_gpus_wf: "units_wf (fst (foldl (new_gpu 0) ([], [c]) [0..<n])) (snd (foldl (new_gpu 0) ([], [c]) [0..<n]))"
  by (simp add: new_gpus_shape units_wf_def)

lemma new_gpus_heap0: "snd (foldl (new_gpu 0) ([], [c]) [0..<n]) ! 0 = c"
  by (simp add: new_gpus_shape)

lemma new_gpus_length: "length (fst (foldl (new_gpu m) ([], h) [0..<n])) = n"
  by (simp add: new_gpus_shape)

lemma place_pod_wf:
  assumes "units_wf gs h" and "place_pod p (gs, h) = Inr (gs', h')"
  shows "units_wf gs' h' \<and> h' ! 0 = h ! 0 \<and> length gs' = length gs"
  using assms
  by (auto simp: place_pod_def units_wf_def Let_def nth_list_update
           split: prod.splits option.splits if_splits)

lemma place_pods_wf:
  "units_wf gs h \<Longrightarrow> place_pods ps (gs, h) = Inr (gs', h') \<Longrightarrow>
     units_wf gs' h' \<and> h' ! 0 = h ! 0 \<and> length gs' = length gs"
proof (induction ps arbitrary: gs h)
  case Nil
  then show ?case by simp
next
  case (Cons p ps)
  from Cons.prems(2) obtain gs1 h1 where
    step: "place_pod p (gs, h) = Inr (gs1, h1)" and rest: "place_pods ps (gs1, h1) = Inr (gs', h')"
    by (auto split: sum.splits)
  from place_pod_wf [OF Cons.prems(1) step]
  have wf1: "units_wf gs1 h1" and h1: "h1 ! 0 = h ! 0" and l1: "length gs1 = length gs"
    by simp_all
  from Cons.IH [OF wf1 rest] h1 l1 show ?case by simp
qed

lemma NewGPUNode_InrD:
  assumes "NewGPUNode room ni = Inr (n, h)"
  obtains g m where
    "AsInt64 (allocatable ni GPUResourceName) = Some g"
    "AsInt64 (allocatable ni MemResourceName) = Some m"
    "0 < g" "g * ptrSize \<le> maxAlloc" "g \<le> room"
    "place_pods (Pods ni) (foldl (new_gpu 0) ([], [of_int (int64_wrap (m sdiv g))]) [0..<nat g])
       = Inr (gpus n, h)"
  using assms
  by (auto simp: NewGPUNode_def Let_def int64_quo_def NewQuantity_def constructGPUs_def
           not_less split: option.splits sum.splits if_splits prod.splits)

lemma NewGPUNode_wf:
  assumes "NewGPUNode room ni = Inr (n, h)"
  shows "units_wf (gpus n) h"
proof -
  from assms obtain g m where
    pl: "place_pods (Pods ni) (foldl (new_gpu 0) ([], [of_int (int64_wrap (m sdiv g))]) [0..<nat g])
       = Inr (gpus n, h)"
    by (rule NewGPUNode_InrD)
  obtain gs0 h0 where
    init: "foldl (new_gpu 0) ([], [of_int (int64_wrap (m sdiv g))]) [0..<nat g] = (gs0, h0)"
    by (cases "foldl (new_gpu 0) ([], [of_int (int64_wrap (m sdiv g))::rat]) [0..<nat g]")
  have "units_wf gs0 h0"
    using new_gpus_wf [of "of_int (int64_wrap (m sdiv g))" "nat g"] init by simp
  with pl init show ?thesis
    using place_pods_wf by metis
qed

lemma GPUAssumeFitIndexes_loop_eq:
  "GPUAssumeFitIndexes_loop h us fits =
     fits @ map index (filter (\<lambda>u. \<not> monopoly u \<and> usedBytes h u = 0) us)"
  by (induction us arbitrary: fits) (simp_all add: usedBytes_def)

lemma units_wf_sorted: "units_wf gs h \<Longrightarrow> sorted_wrt (<) (map index gs)"
  by (simp add: units_wf_def sorted_wrt_iff_nth_less)


lemma int64_wrap_id: "- (2 ^ 63) \<le> k \<Longrightarrow> k < 2 ^ 63 \<Longrightarrow> int64_wrap k = k"
  by (simp add: int64_wrap_def)

lemma sint64_range: "- (2 ^ 63) \<le> sint (v :: 64 word) \<and> sint v < 2 ^ 63"
  using sint_ge [of v] sint_lt [of v] by simp

lemma AsInt64_range:
  assumes "AsInt64 q = Some k"
  shows "- (2 ^ 63) \<le> k \<and> k < 2 ^ 63 \<and> of_int k = num q"
proof (cases q)
  case (Int64Amount v s)
  show ?thesis
  proof (cases "sint s = 0")
    case True
    with assms Int64Amount sint64_range [of v] show ?thesis by simp
  next
    case False
    with assms Int64Amount show ?thesis
      by (auto simp: positiveScaleInt64_def Let_def split: if_splits)
  qed
next
  case (InfDecAmount d)
  with assms show ?thesis by simp
qed

lemma int_div_le_self:
  fixes m g :: int
  assumes "0 \<le> m" and "0 < g"
  shows "0 \<le> m div g \<and> m div g \<le> m"
proof -
  have "m div g \<le> m div 1"
    using assms by (intro zdiv_mono2) simp_all
  moreover have "0 \<le> m div g"
    using assms by (simp add: pos_imp_zdiv_nonneg_iff)
  ultimately show ?thesis by simp
qed

lemma sdiv_pos_bounds:
  fixes m g :: int
  assumes "0 < g"
  shows "(0 \<le> m \<longrightarrow> m sdiv g = m div g \<and> 0 \<le> m sdiv g \<and> m sdiv g \<le> m)
       \<and> (m < 0 \<longrightarrow> m \<le> m sdiv g \<and> m sdiv g \<le> 0)"
proof -
  have a: "0 \<le> m \<Longrightarrow> m sdiv g = m div g"
    using assms by (simp add: signed_divide_int_def sgn_if)
  have d: "m < 0 \<Longrightarrow> m sdiv g = - ((- m) div g)"
    using assms by (simp add: signed_divide_int_def sgn_if)
  show ?thesis
  proof (cases "0 \<le> m")
    case True
    with a int_div_le_self [of m g] assms show ?thesis by simp
  next
    case False
    then have "0 \<le> - m" by simp
    from int_div_le_self [OF this assms] d False show ?thesis by simp
  qed
qed

lemma int64_quo_pos:
  assumes "0 < g" and "- (2 ^ 63) \<le> m" and "m < 2 ^ 63"
  shows "int64_quo m g = Inr (m sdiv g)"
proof -
  from sdiv_pos_bounds [OF assms(1), of m] assms(2,3)
  have "- (2 ^ 63) \<le> m sdiv g \<and> m sdiv g < 2 ^ 63"
    by (cases "0 \<le> m") auto
  then show ?thesis
    using assms(1) by (simp add: int64_quo_def int64_wrap_id)
qed

section \<open>Evaluating the test inputs\<close>

lemma node_two_units_model: "NewGPUNode 1024 node_two_units = Inr (two_units, [8, 0, 3])"
  by code_simp

lemma two_units_shared_fit: "MemAssumeFitIndexes two_units [8, 0, 3] 2 = ([0, 1], [1, 2, 5])"
  by code_simp

lemma shared_pod_gpu_limit: "podResourceLimit GPUResourceName (shared_pod (whole 2) None) = (0, False)"
  by code_simp

lemma shared_pod_mem_limit: "podResourceLimit MemResourceName (shared_pod (whole 2) None) = (2, True)"
  by code_simp

lemma Reserve_shared_two_units:
  "Reserve 1024 (single_machine node_two_units) (shared_pod (whole 2) None) ''node'' =
     Inr (None, set_index (shared_pod (whole 2) None) 0)"
  by (simp add: Reserve_def single_machine_def shared_pod_gpu_limit shared_pod_mem_limit
        node_two_units_model two_units_shared_fit)

lemma exclusive_pod_gpu_limit: "podResourceLimit GPUResourceName (exclusive_pod (whole 1) None) = (1, True)"
  by code_simp

lemma exclusive_pod_mem_limit: "podResourceLimit MemResourceName (exclusive_pod (whole 1) None) = (0, False)"
  by code_simp

lemma odd_model: "NewGPUNode 1024 (machine (whole 2) (whole 17) []) = Inr (odd_units, [8, 0, 0])"
  by code_simp

section \<open>The exclusive fit\<close>

text \<open>
  C4. The exclusive fit returns exactly the indexes of the units that are not locked and
  hold zero used bytes, in the order of the units, and leaves the store alone. Every
  returned index belongs to such a unit; when no unit qualifies the result is the empty
  list. In a model built by \<^verbatim>\<open>NewGPUNode\<close> unit \<open>i\<close> has index \<open>i\<close>, so the result is
  strictly ascending.
\<close>

theorem exclusive_fit_exact:
  "fst (GPUAssumeFitIndexes n h gpuLimit) =
     map index (filter (\<lambda>u. \<not> monopoly u \<and> usedBytes h u = 0) (gpus n))
   \<and> snd (GPUAssumeFitIndexes n h gpuLimit) = h
   \<and> (\<forall>i \<in> set (fst (GPUAssumeFitIndexes n h gpuLimit)).
        \<exists>u \<in> set (gpus n). index u = i \<and> \<not> monopoly u \<and> usedBytes h u = 0)
   \<and> ((\<forall>u \<in> set (gpus n). monopoly u \<or> usedBytes h u \<noteq> 0) \<longrightarrow>
        fst (GPUAssumeFitIndexes n h gpuLimit) = [])
   \<and> (NewGPUNode room ni = Inr (n, h) \<longrightarrow>
        map index (gpus n) = map int [0..<length (gpus n)] \<and>
        sorted_wrt (<) (fst (GPUAssumeFitIndexes n h gpuLimit)))"
proof -
  let ?ok = "\<lambda>u. \<not> monopoly u \<and> usedBytes h u = 0"
  have eq: "fst (GPUAssumeFitIndexes n h gpuLimit) = map index (filter ?ok (gpus n))"
    by (simp add: GPUAssumeFitIndexes_def GPUAssumeFitIndexes_loop_eq)
  have frame: "snd (GPUAssumeFitIndexes n h gpuLimit) = h"
    by (simp add: GPUAssumeFitIndexes_def)
  have sound: "\<forall>i \<in> set (fst (GPUAssumeFitIndexes n h gpuLimit)).
        \<exists>u \<in> set (gpus n). index u = i \<and> ?ok u"
    unfolding eq by auto
  have none: "(\<forall>u \<in> set (gpus n). monopoly u \<or> usedBytes h u \<noteq> 0) \<longrightarrow>
        fst (GPUAssumeFitIndexes n h gpuLimit) = []"
    unfolding eq by (auto simp: filter_empty_conv)
  have asc: "NewGPUNode room ni = Inr (n, h) \<longrightarrow>
        map index (gpus n) = map int [0..<length (gpus n)] \<and>
        sorted_wrt (<) (fst (GPUAssumeFitIndexes n h gpuLimit))"
  proof
    assume "NewGPUNode room ni = Inr (n, h)"
    then have wf: "units_wf (gpus n) h" by (rule NewGPUNode_wf)
    then have idx: "map index (gpus n) = map int [0..<length (gpus n)]"
      by (auto simp: units_wf_def intro: nth_equalityI)
    have "sorted_wrt (<) (map index (gpus n))" using wf by (rule units_wf_sorted)
    then have "sorted_wrt (\<lambda>u v. index u < index v) (filter ?ok (gpus n))"
      by (simp add: sorted_wrt_map sorted_wrt_filter)
    then have "sorted_wrt (<) (fst (GPUAssumeFitIndexes n h gpuLimit))"
      unfolding eq by (simp add: sorted_wrt_map)
    with idx show "map index (gpus n) = map int [0..<length (gpus n)] \<and>
        sorted_wrt (<) (fst (GPUAssumeFitIndexes n h gpuLimit))" by simp
  qed
  from eq frame sound none asc show ?thesis by blast
qed

text \<open>On the machine with two units, unit 1 holding 3 bytes, only unit 0 is idle.\<close>

theorem exclusive_fit_exact_witness:
  "NewGPUNode 1024 node_two_units = Inr (two_units, [8, 0, 3])
   \<and> fst (GPUAssumeFitIndexes two_units [8, 0, 3] 1) = [0]
   \<and> sorted_wrt (<) (fst (GPUAssumeFitIndexes two_units [8, 0, 3] 1))"
proof -
  have e: "fst (GPUAssumeFitIndexes two_units [8, 0, 3] 1) = [0]" by code_simp
  have s: "sorted_wrt (<) (fst (GPUAssumeFitIndexes two_units [8, 0, 3] 1))"
    using exclusive_fit_exact [where n = two_units and h = "[8, 0, 3]" and gpuLimit = 1
        and room = 1024 and ni = node_two_units] node_two_units_model
    by blast
  from node_two_units_model e s show ?thesis by blast
qed

text \<open>
  C10. The exclusive fit does not read the requested quantity: any two requests give the
  same index list (and the same, unchanged, store).
\<close>

theorem exclusive_fit_ignores_request:
  "GPUAssumeFitIndexes n h gpuLimit = GPUAssumeFitIndexes n h gpuLimit'"
  by (simp add: GPUAssumeFitIndexes_def)

section \<open>Classifying a workload\<close>

lemma podResourceLimit_loop_exist:
  "snd (podResourceLimit_loop name cs (s, e)) \<longleftrightarrow> e \<or> (\<exists>c \<in> set cs. Limits c name \<noteq> None)"
  by (induction cs arbitrary: s e) (auto split: option.splits)

lemma podResourceLimit_exist:
  "snd (podResourceLimit name p) \<longleftrightarrow> (\<exists>c \<in> set (Containers p). Limits c name \<noteq> None)"
  by (simp add: podResourceLimit_def podResourceLimit_loop_exist)

text \<open>
  C6. \<^verbatim>\<open>Filter\<close> passes with no opinion (a nil status) when no container declares either
  resource, and answers \<^verbatim>\<open>UnschedulableAndUnresolvable\<close> when both resources are declared,
  whatever the machine is.
\<close>

theorem Filter_classifies:
  "((\<forall>c \<in> set (Containers p).
        Limits c GPUResourceName = None \<and> Limits c MemResourceName = None) \<longrightarrow>
      Filter room p ni = Inr None)
   \<and> ((\<exists>c \<in> set (Containers p). Limits c GPUResourceName \<noteq> None) \<and>
       (\<exists>c \<in> set (Containers p). Limits c MemResourceName \<noteq> None) \<longrightarrow>
      Filter room p ni = Inr (Some (UnschedulableAndUnresolvable, ''pod conflict resources'')))"
proof -
  obtain gl ge where g: "podResourceLimit GPUResourceName p = (gl, ge)"
    by (cases "podResourceLimit GPUResourceName p")
  obtain ml me where m: "podResourceLimit MemResourceName p = (ml, me)"
    by (cases "podResourceLimit MemResourceName p")
  have ge: "ge \<longleftrightarrow> (\<exists>c \<in> set (Containers p). Limits c GPUResourceName \<noteq> None)"
    using podResourceLimit_exist [of GPUResourceName p] g by simp
  have me: "me \<longleftrightarrow> (\<exists>c \<in> set (Containers p). Limits c MemResourceName \<noteq> None)"
    using podResourceLimit_exist [of MemResourceName p] m by simp
  show ?thesis
    unfolding Filter_def g m using ge me by auto
qed

text \<open>A workload with no limits passes; one with both resources is a conflict.\<close>

theorem Filter_classifies_witness:
  "list_all (\<lambda>c. Limits c GPUResourceName = None \<and> Limits c MemResourceName = None)
     (Containers plain_pod)
   \<and> Filter 1024 plain_pod node_two_units = Inr None
   \<and> (\<exists>c \<in> set (Containers conflicting_pod). Limits c GPUResourceName \<noteq> None)
   \<and> (\<exists>c \<in> set (Containers conflicting_pod). Limits c MemResourceName \<noteq> None)
   \<and> Filter 1024 conflicting_pod node_two_units
        = Inr (Some (UnschedulableAndUnresolvable, ''pod conflict resources''))"
  using Filter_classifies [where p = plain_pod and room = 1024 and ni = node_two_units]
    Filter_classifies [where p = conflicting_pod and room = 1024 and ni = node_two_units]
  by (simp add: plain_pod_def conflicting_pod_def GPUResourceName_def MemResourceName_def)

section \<open>Reservation and rollback\<close>

lemma Atoi_empty: "Atoi [] = None"
  by (simp add: Atoi_def)

lemma annotation_Unreserve:
  "annotation (Unreserve p) GPUIndexAnnotationKey = ([], False)"
  by (cases "Annotations p") (simp_all add: annotation_def Unreserve_def)

lemma place_pod_Unreserve: "place_pod (Unreserve p) st = Inr st"
  by (cases st)
    (simp add: place_pod_def annotation_Unreserve Atoi_empty split: prod.splits)

lemma place_pods_append:
  "place_pods (xs @ ys) st =
     (case place_pods xs st of Inl e \<Rightarrow> Inl e | Inr st' \<Rightarrow> place_pods ys st')"
  by (induction xs arbitrary: st) (simp_all split: sum.splits)

lemma place_pods_skip_Unreserve:
  "place_pods (xs @ Unreserve p # ys) st = place_pods (xs @ ys) st"
  by (simp add: place_pods_append place_pod_Unreserve split: sum.splits)

lemma Reserve_pod:
  assumes "Reserve room snapshot p nodeName = Inr (st, p1)"
  shows "p1 = p \<or> (\<exists>i. p1 = set_index p i)"
  using assms
  by (auto simp: Reserve_def GPUAssumeFitIndexes_def
           split: sum.splits prod.splits if_splits)

lemma Unreserve_keeps_others:
  assumes "p1 = p \<or> (\<exists>i. p1 = set_index p i)" and "k \<noteq> GPUIndexAnnotationKey"
  shows "annotation (Unreserve p1) k = annotation p k"
  using assms
  by (auto simp: Unreserve_def set_index_def annotation_def split: option.splits)

lemma Unreserve_Containers:
  assumes "p1 = p \<or> (\<exists>i. p1 = set_index p i)"
  shows "Containers (Unreserve p1) = Containers p"
  using assms by (auto simp: Unreserve_def set_index_def)

text \<open>
  C3. \<^verbatim>\<open>Reserve\<close> followed by \<^verbatim>\<open>Unreserve\<close> leaves the workload without an index
  annotation, with its containers and its other annotations as they were, and the model
  rebuilt for the machine is the model built before the reservation, also when the
  rolled-back workload is counted among the machine's placed workloads, at any position.
\<close>

theorem Reserve_Unreserve_model:
  assumes "snapshot nodeName = Inr ni"
    and "Reserve room snapshot p nodeName = Inr (st, p1)"
    and "Pods ni = xs @ ys"
  shows "annotation (Unreserve p1) GPUIndexAnnotationKey = ([], False)
    \<and> Containers (Unreserve p1) = Containers p
    \<and> (\<forall>k. k \<noteq> GPUIndexAnnotationKey \<longrightarrow> annotation (Unreserve p1) k = annotation p k)
    \<and> NewGPUNode room (ni\<lparr>Pods := xs @ Unreserve p1 # ys\<rparr>) = NewGPUNode room ni"
proof -
  have "NewGPUNode room (ni\<lparr>Pods := xs @ Unreserve p1 # ys\<rparr>) = NewGPUNode room (ni\<lparr>Pods := xs @ ys\<rparr>)"
    by (simp add: NewGPUNode_def allocatable_def constructGPUs_def place_pods_skip_Unreserve
          Let_def split: option.splits sum.splits prod.splits)
  moreover have "ni\<lparr>Pods := xs @ ys\<rparr> = ni"
    using assms(3) by simp
  moreover note Unreserve_keeps_others [OF Reserve_pod [OF assms(2)]]
    Unreserve_Containers [OF Reserve_pod [OF assms(2)]]
  ultimately show ?thesis
    by (simp add: annotation_Unreserve)
qed

text \<open>
  A shared request of 2 is reserved on the machine with two units and rolled back; the
  workload is then appended to the machine's workloads.
\<close>

theorem Reserve_Unreserve_model_witness:
  "Reserve 1024 (single_machine node_two_units) (shared_pod (whole 2) None) ''node''
     = Inr (None, set_index (shared_pod (whole 2) None) 0)
   \<and> annotation (Unreserve (set_index (shared_pod (whole 2) None) 0)) GPUIndexAnnotationKey
       = ([], False)
   \<and> NewGPUNode 1024
        (node_two_units\<lparr>Pods := Pods node_two_units
                                  @ [Unreserve (set_index (shared_pod (whole 2) None) 0)]\<rparr>)
       = Inr (two_units, [8, 0, 3])"
  using Reserve_Unreserve_model [where snapshot = "single_machine node_two_units"
      and nodeName = "''node''" and ni = node_two_units and room = 1024
      and p = "shared_pod (whole 2) None" and st = None
      and ?p1.0 = "set_index (shared_pod (whole 2) None) 0"
      and xs = "Pods node_two_units" and ys = "[]"]
    Reserve_shared_two_units node_two_units_model
  by (simp add: single_machine_def)

section \<open>Per-unit capacity\<close>

lemma int64_wrap_sdiv:
  assumes "0 < g" and "- (2 ^ 63) \<le> m" and "m < 2 ^ 63"
  shows "int64_wrap (m sdiv g) = m sdiv g"
  using int64_quo_pos [OF assms] assms(1) by (simp add: int64_quo_def)

lemma sum_list_const:
  fixes c :: rat
  shows "\<forall>x \<in> set xs. f x = c \<Longrightarrow> sum_list (map f xs) = of_nat (length xs) * c"
  by (induction xs) (simp_all add: algebra_simps)

lemma smod_nonneg:
  fixes m g :: int
  shows "0 \<le> m \<Longrightarrow> 0 < g \<Longrightarrow> m smod g = m mod g"
  by (simp add: signed_modulo_int_def sgn_if)

text \<open>
  C8, as amended. On a machine with a positive unit count the model has one unit per
  count, and every unit's capacity is the total memory divided by the unit count, the
  quotient truncated towards zero. The total minus the sum of the capacities is the
  remainder of that division. When the total is not negative, the quotient and the
  remainder are the usual ones and the sum of the capacities is at most the total.
\<close>

theorem unit_capacity_is_quotient:
  assumes built: "NewGPUNode room ni = Inr (n, h)"
    and gpu: "AsInt64 (allocatable ni GPUResourceName) = Some unitCount"
    and mem: "AsInt64 (allocatable ni MemResourceName) = Some totalMemoryBytes"
    and pos: "0 < unitCount"
  shows "length (gpus n) = nat unitCount
    \<and> (\<forall>u \<in> set (gpus n). capacityBytes h u = of_int (totalMemoryBytes sdiv unitCount))
    \<and> of_int totalMemoryBytes - sum_list (map (capacityBytes h) (gpus n))
        = of_int (totalMemoryBytes smod unitCount)
    \<and> (0 \<le> totalMemoryBytes \<longrightarrow>
          totalMemoryBytes sdiv unitCount = totalMemoryBytes div unitCount
        \<and> totalMemoryBytes smod unitCount = totalMemoryBytes mod unitCount
        \<and> sum_list (map (capacityBytes h) (gpus n)) \<le> of_int totalMemoryBytes)"
proof -
  let ?c = "of_int (int64_wrap (totalMemoryBytes sdiv unitCount)) :: rat"
  let ?init = "foldl (new_gpu 0) ([], [?c]) [0..<nat unitCount]"
  from built gpu mem have pl: "place_pods (Pods ni) ?init = Inr (gpus n, h)"
    by (auto elim!: NewGPUNode_InrD)
  have wf0: "units_wf (fst ?init) (snd ?init)" by (rule new_gpus_wf)
  from place_pods_wf [OF wf0, of "Pods ni" "gpus n" h] pl
  have wf: "units_wf (gpus n) h" and h0: "h ! 0 = snd ?init ! 0"
    and len: "length (gpus n) = length (fst ?init)" by simp_all
  have len': "length (gpus n) = nat unitCount"
    using len by (simp add: new_gpus_length)
  from AsInt64_range [OF mem] pos
  have wrap: "int64_wrap (totalMemoryBytes sdiv unitCount) = totalMemoryBytes sdiv unitCount"
    by (intro int64_wrap_sdiv) simp_all
  have cell: "h ! 0 = of_int (totalMemoryBytes sdiv unitCount)"
    using h0 wrap by (simp add: new_gpus_heap0)
  have cap: "\<forall>u \<in> set (gpus n). capacityBytes h u = of_int (totalMemoryBytes sdiv unitCount)"
  proof
    fix u assume "u \<in> set (gpus n)"
    then obtain i where "i < length (gpus n)" and "u = gpus n ! i"
      by (auto simp: in_set_conv_nth)
    with wf have "memory u = 0" by (simp add: units_wf_def)
    with cell show "capacityBytes h u = of_int (totalMemoryBytes sdiv unitCount)"
      by (simp add: capacityBytes_def)
  qed
  have "sum_list (map (capacityBytes h) (gpus n))
          = of_nat (nat unitCount) * of_int (totalMemoryBytes sdiv unitCount)"
    using sum_list_const [OF cap] len' by simp
  also have "\<dots> = of_int (unitCount * (totalMemoryBytes sdiv unitCount))"
    using pos by simp
  finally have total:
    "sum_list (map (capacityBytes h) (gpus n))
       = of_int (unitCount * (totalMemoryBytes sdiv unitCount))" .
  have "totalMemoryBytes - unitCount * (totalMemoryBytes sdiv unitCount)
          = totalMemoryBytes smod unitCount"
    by (rule minus_mult_sdiv_eq_smod)
  then have rem: "of_int totalMemoryBytes - sum_list (map (capacityBytes h) (gpus n))
        = (of_int (totalMemoryBytes smod unitCount) :: rat)"
    unfolding total by (metis of_int_diff)
  have nonneg: "0 \<le> totalMemoryBytes \<longrightarrow>
          totalMemoryBytes sdiv unitCount = totalMemoryBytes div unitCount
        \<and> totalMemoryBytes smod unitCount = totalMemoryBytes mod unitCount
        \<and> sum_list (map (capacityBytes h) (gpus n)) \<le> of_int totalMemoryBytes"
  proof
    assume nn: "0 \<le> totalMemoryBytes"
    have d: "totalMemoryBytes sdiv unitCount = totalMemoryBytes div unitCount"
      using sdiv_pos_bounds [OF pos, of totalMemoryBytes] nn by simp
    have m: "totalMemoryBytes smod unitCount = totalMemoryBytes mod unitCount"
      using nn pos by (rule smod_nonneg)
    have "0 \<le> totalMemoryBytes mod unitCount" using pos by simp
    then have "(0::rat) \<le> of_int (totalMemoryBytes smod unitCount)" using m by simp
    with rem have "sum_list (map (capacityBytes h) (gpus n)) \<le> of_int totalMemoryBytes"
      by linarith
    with d m show "totalMemoryBytes sdiv unitCount = totalMemoryBytes div unitCount
        \<and> totalMemoryBytes smod unitCount = totalMemoryBytes mod unitCount
        \<and> sum_list (map (capacityBytes h) (gpus n)) \<le> of_int totalMemoryBytes" by simp
  qed
  from len' cap rem nonneg show ?thesis by blast
qed

text \<open>Two units and 17 bytes: 8 bytes each, and the seventeenth byte is the remainder.\<close>

theorem unit_capacity_is_quotient_witness:
  "NewGPUNode 1024 (machine (whole 2) (whole 17) []) = Inr (odd_units, [8, 0, 0])
   \<and> AsInt64 (allocatable (machine (whole 2) (whole 17) []) GPUResourceName) = Some 2
   \<and> AsInt64 (allocatable (machine (whole 2) (whole 17) []) MemResourceName) = Some 17
   \<and> (0::int) < 2 \<and> (0::int) \<le> 17
   \<and> length (gpus odd_units) = 2
   \<and> list_all (\<lambda>u. capacityBytes [8, 0, 0] u = 8) (gpus odd_units)
   \<and> 17 - sum_list (map (capacityBytes [8, 0, 0]) (gpus odd_units)) = 1
   \<and> sum_list (map (capacityBytes [8, 0, 0]) (gpus odd_units)) \<le> 17"
proof -
  have g: "AsInt64 (allocatable (machine (whole 2) (whole 17) []) GPUResourceName) = Some 2" by code_simp
  have m: "AsInt64 (allocatable (machine (whole 2) (whole 17) []) MemResourceName) = Some 17" by code_simp
  have q: "(17::int) sdiv 2 = 8" "(17::int) smod 2 = 1" by code_simp+
  from unit_capacity_is_quotient [OF odd_model g m] q g m odd_model
  show ?thesis by (simp add: list_all_iff)
qed

text \<open>
  C8 as stated fails for a negative total: with 2 units and a total of -5 each unit gets
  -2, and the sum -4 is above the total.
\<close>

theorem capacity_sum_exceeds_negative_total:
  "map_sum id capacities (NewGPUNode 1024 (machine (whole 2) (whole (- 5)) [])) = Inr [- 2, - 2]
   \<and> (- 5 :: rat) < sum_list [- 2, - 2]"
  by code_simp

section \<open>Panics of the construction\<close>

lemma place_pod_length:
  "place_pod p (gs, h) = Inr (gs', h') \<Longrightarrow> length gs' = length gs"
  by (auto simp: place_pod_def Let_def split: prod.splits option.splits if_splits)

lemma place_pod_panic:
  "place_pod p st = Inl e \<Longrightarrow> e = IndexOutOfRange"
  by (auto simp: place_pod_def Let_def split: prod.splits option.splits if_splits)

lemma place_pod_in_range:
  assumes "\<forall>i. Atoi (fst (annotation p GPUIndexAnnotationKey)) = Some i \<longrightarrow>
             0 \<le> i \<and> i < int (length gs)"
  shows "\<exists>st'. place_pod p (gs, h) = Inr st'"
  using assms
  by (auto simp: place_pod_def Let_def split: prod.splits option.splits if_splits)

lemma place_pod_out_of_range:
  assumes "declares p"
    and "Atoi (fst (annotation p GPUIndexAnnotationKey)) = Some i"
    and "\<not> (0 \<le> i \<and> i < int (length gs))"
  shows "place_pod p (gs, h) = Inl IndexOutOfRange"
proof -
  from assms(2) have "fst (annotation p GPUIndexAnnotationKey) \<noteq> []"
    by (auto simp: Atoi_empty)
  then have "snd (annotation p GPUIndexAnnotationKey)"
    by (auto simp: annotation_def split: option.splits)
  with assms show ?thesis
    by (auto simp: place_pod_def declares_def Let_def split: prod.splits option.splits)
qed

lemma place_pods_in_range:
  assumes "\<forall>p \<in> set ps. \<forall>i. Atoi (fst (annotation p GPUIndexAnnotationKey)) = Some i \<longrightarrow>
             0 \<le> i \<and> i < int (length gs)"
  shows "\<exists>st'. place_pods ps (gs, h) = Inr st'"
  using assms
proof (induction ps arbitrary: gs h)
  case Nil
  show ?case by simp
next
  case (Cons p ps)
  from Cons.prems have "\<exists>st'. place_pod p (gs, h) = Inr st'"
    by (intro place_pod_in_range) simp
  then obtain gs1 h1 where step: "place_pod p (gs, h) = Inr (gs1, h1)" by force
  then have "length gs1 = length gs" by (rule place_pod_length)
  with Cons.prems have "\<exists>st'. place_pods ps (gs1, h1) = Inr st'"
    by (intro Cons.IH) simp
  with step show ?case by simp
qed

lemma place_pods_out_of_range:
  assumes "p \<in> set ps" and "declares p"
    and "Atoi (fst (annotation p GPUIndexAnnotationKey)) = Some i"
    and "\<not> (0 \<le> i \<and> i < int (length gs))"
  shows "place_pods ps (gs, h) = Inl IndexOutOfRange"
  using assms
proof (induction ps arbitrary: gs h)
  case Nil
  then show ?case by simp
next
  case (Cons q ps)
  show ?case
  proof (cases "place_pod q (gs, h)")
    case (Inl e)
    then show ?thesis using place_pod_panic [OF Inl] by simp
  next
    case (Inr st1)
    obtain gs1 h1 where st1: "st1 = (gs1, h1)" by (cases st1)
    with Inr have len: "length gs1 = length gs" by (auto dest: place_pod_length)
    have "q \<noteq> p"
      using Inr place_pod_out_of_range [OF Cons.prems(2,3,4), of h] by auto
    with Cons.prems(1) have "p \<in> set ps" by simp
    from Cons.IH [OF this Cons.prems(2,3), of gs1 h1] Cons.prems(4) len
    have "place_pods ps (gs1, h1) = Inl IndexOutOfRange" by simp
    with Inr st1 show ?thesis by simp
  qed
qed

lemma NewGPUNode_unfold:
  assumes "AsInt64 (allocatable ni GPUResourceName) = Some g"
    and "AsInt64 (allocatable ni MemResourceName) = Some m"
    and "0 < g" and "g * ptrSize \<le> maxAlloc" and "g \<le> room"
  shows "NewGPUNode room ni =
     (case place_pods (Pods ni)
             (foldl (new_gpu 0) ([], [of_int (int64_wrap (m sdiv g))]) [0..<nat g]) of
        Inl e \<Rightarrow> Inl e
      | Inr (gs, h') \<Rightarrow>
          Inr (\<lparr>gpuCount = allocatable ni GPUResourceName,
                memoryTotal = allocatable ni MemResourceName, gpus = gs\<rparr>, h'))"
  using assms
  by (simp add: NewGPUNode_def Let_def int64_quo_def NewQuantity_def constructGPUs_def)

text \<open>
  C7, as amended. When the allocatable quantity of the exclusive-unit resource is not an
  \<^verbatim>\<open>int64\<close> count, \<^verbatim>\<open>NewGPUNode\<close> panics with the GPU format panic; when that one is
  and the memory quantity is not, it panics with the memory format panic. A panic of
  \<^verbatim>\<open>NewGPUNode\<close> leaves \<^verbatim>\<open>Reserve\<close> as a panic, for a workload that declares exactly one
  of the two resources: no \<^verbatim>\<open>Error\<close> status is returned.
\<close>

theorem malformed_capacity_panics:
  "(AsInt64 (allocatable ni GPUResourceName) = None \<longrightarrow>
      NewGPUNode room ni = Inl InvalidGPUResourceFormat)
   \<and> (AsInt64 (allocatable ni GPUResourceName) \<noteq> None \<and>
      AsInt64 (allocatable ni MemResourceName) = None \<longrightarrow>
      NewGPUNode room ni = Inl InvalidMemoryResourceFormat)
   \<and> (snapshot nodeName = Inr ni \<and>
      snd (podResourceLimit GPUResourceName p) \<noteq> snd (podResourceLimit MemResourceName p) \<and>
      NewGPUNode room ni = Inl e \<longrightarrow>
      Reserve room snapshot p nodeName = Inl e)"
  by (auto simp: NewGPUNode_def Let_def Reserve_def split: prod.splits)

text \<open>
  A unit count of 1.5 (15 with scale -1), and a memory of \<open>2 ^ 63\<close> bytes, one above the
  largest \<^verbatim>\<open>int64\<close> and so held with arbitrary precision.
\<close>

theorem malformed_capacity_panics_witness:
  "AsInt64 (allocatable (machine (Int64Amount 15 (- 1)) (whole 16) []) GPUResourceName) = None
   \<and> NewGPUNode 1024 (machine (Int64Amount 15 (- 1)) (whole 16) [])
        = Inl InvalidGPUResourceFormat
   \<and> AsInt64 (allocatable (machine (whole 2) (InfDecAmount (2 ^ 63)) []) GPUResourceName)
        = Some 2
   \<and> AsInt64 (allocatable (machine (whole 2) (InfDecAmount (2 ^ 63)) []) MemResourceName)
        = None
   \<and> NewGPUNode 1024 (machine (whole 2) (InfDecAmount (2 ^ 63)) [])
        = Inl InvalidMemoryResourceFormat
   \<and> Reserve 1024 (single_machine (machine (Int64Amount 15 (- 1)) (whole 16) []))
          (exclusive_pod (whole 1) None) ''node''
        = Inl InvalidGPUResourceFormat"
proof -
  let ?bad = "machine (Int64Amount 15 (- 1)) (whole 16) []"
  let ?big = "machine (whole 2) (InfDecAmount (2 ^ 63)) []"
  have a: "AsInt64 (allocatable ?bad GPUResourceName) = None" by code_simp
  have b: "AsInt64 (allocatable ?big GPUResourceName) = Some 2" by code_simp
  have c: "AsInt64 (allocatable ?big MemResourceName) = None" by code_simp
  have d: "NewGPUNode 1024 ?bad = Inl InvalidGPUResourceFormat"
    using malformed_capacity_panics [where ni = ?bad and room = 1024] a by blast
  have e: "NewGPUNode 1024 ?big = Inl InvalidMemoryResourceFormat"
    using malformed_capacity_panics [where ni = ?big and room = 1024] b c by simp
  have f: "Reserve 1024 (single_machine ?bad) (exclusive_pod (whole 1) None) ''node''
        = Inl InvalidGPUResourceFormat"
    using malformed_capacity_panics [where ni = ?bad and room = 1024
        and snapshot = "single_machine ?bad" and nodeName = "''node''"
        and p = "exclusive_pod (whole 1) None" and e = InvalidGPUResourceFormat] d
    by (simp add: single_machine_def exclusive_pod_gpu_limit exclusive_pod_mem_limit)
  from a b c d e f show ?thesis by blast
qed

text \<open>
  C7 as stated fails: with 1.5 units reported, or 16.5 bytes, the construction panics,
  and so does \<^verbatim>\<open>Filter\<close>; neither returns a status.
\<close>

theorem malformed_capacity_not_Error:
  "NewGPUNode 1024 (machine (Int64Amount 15 (- 1)) (whole 16) [])
     = Inl InvalidGPUResourceFormat
   \<and> NewGPUNode 1024 (machine (whole 2) (Int64Amount 165 (- 1)) [])
     = Inl InvalidMemoryResourceFormat
   \<and> Filter 1024 (exclusive_pod (whole 1) None) (machine (Int64Amount 15 (- 1)) (whole 16) [])
     = Inl InvalidGPUResourceFormat
   \<and> Filter 1024 (exclusive_pod (whole 1) None) (machine (whole 2) (Int64Amount 165 (- 1)) [])
     = Inl InvalidMemoryResourceFormat"
  by code_simp

text \<open>
  C9, as amended. Let \<^verbatim>\<open>AsInt64\<close> read both allocatable quantities. If the unit count is
  positive, the unit slice can be made (its bytes are within \<^verbatim>\<open>maxAlloc\<close> and the process
  has room for the units) and every placed workload's index annotation that parses as an
  integer lies in \<open>[0, unitCount)\<close>, the construction returns a model. A zero unit count
  panics with the division by zero; a negative one, or one whose slice exceeds
  \<^verbatim>\<open>maxAlloc\<close>, panics when the slice is made; one for which the process has no room
  ends in the fatal error; and, the slice made, a placed workload that declares a
  resource and whose index parses outside the range panics with the index out of range.
\<close>

theorem construction_completes:
  assumes gpu: "AsInt64 (allocatable ni GPUResourceName) = Some unitCount"
    and mem: "AsInt64 (allocatable ni MemResourceName) = Some totalMemoryBytes"
  shows "(0 < unitCount \<and> unitCount * ptrSize \<le> maxAlloc \<and> unitCount \<le> room \<and>
          (\<forall>p \<in> set (Pods ni). \<forall>i.
              Atoi (fst (annotation p GPUIndexAnnotationKey)) = Some i \<longrightarrow>
                0 \<le> i \<and> i < unitCount) \<longrightarrow>
            (\<exists>n h. NewGPUNode room ni = Inr (n, h)))
    \<and> (unitCount = 0 \<longrightarrow> NewGPUNode room ni = Inl IntegerDivideByZero)
    \<and> (unitCount < 0 \<or> maxAlloc < unitCount * ptrSize \<longrightarrow>
          NewGPUNode room ni = Inl MakesliceLenOutOfRange)
    \<and> (0 < unitCount \<and> unitCount * ptrSize \<le> maxAlloc \<and> room < unitCount \<longrightarrow>
          NewGPUNode room ni = Inl FatalOutOfMemory)
    \<and> (0 < unitCount \<and> unitCount * ptrSize \<le> maxAlloc \<and> unitCount \<le> room \<and>
          (\<exists>p \<in> set (Pods ni). declares p \<and>
             (\<exists>i. Atoi (fst (annotation p GPUIndexAnnotationKey)) = Some i \<and>
                  \<not> (0 \<le> i \<and> i < unitCount))) \<longrightarrow>
            NewGPUNode room ni = Inl IndexOutOfRange)"
proof -
  let ?init = "foldl (new_gpu 0)
      ([], [of_int (int64_wrap (totalMemoryBytes sdiv unitCount)) :: rat]) [0..<nat unitCount]"
  obtain gs0 h0 where init: "?init = (gs0, h0)" by (cases ?init)
  have len0: "length gs0 = nat unitCount"
    using new_gpus_length [of 0 "[of_int (int64_wrap (totalMemoryBytes sdiv unitCount))]"
        "nat unitCount"] init by simp
  have total: "0 < unitCount \<and> unitCount * ptrSize \<le> maxAlloc \<and> unitCount \<le> room \<and>
          (\<forall>p \<in> set (Pods ni). \<forall>i.
              Atoi (fst (annotation p GPUIndexAnnotationKey)) = Some i \<longrightarrow>
                0 \<le> i \<and> i < unitCount) \<longrightarrow>
            (\<exists>n h. NewGPUNode room ni = Inr (n, h))"
  proof
    assume a: "0 < unitCount \<and> unitCount * ptrSize \<le> maxAlloc \<and> unitCount \<le> room \<and>
          (\<forall>p \<in> set (Pods ni). \<forall>i.
              Atoi (fst (annotation p GPUIndexAnnotationKey)) = Some i \<longrightarrow>
                0 \<le> i \<and> i < unitCount)"
    then have "\<forall>p \<in> set (Pods ni). \<forall>i.
        Atoi (fst (annotation p GPUIndexAnnotationKey)) = Some i \<longrightarrow>
          0 \<le> i \<and> i < int (length gs0)"
      using len0 by simp
    then obtain st' where "place_pods (Pods ni) (gs0, h0) = Inr st'"
      using place_pods_in_range by blast
    moreover from a have "0 < unitCount" "unitCount * ptrSize \<le> maxAlloc" "unitCount \<le> room"
      by simp_all
    ultimately show "\<exists>n h. NewGPUNode room ni = Inr (n, h)"
      using init by (simp add: NewGPUNode_unfold [OF gpu mem] split: prod.splits)
  qed
  have zero: "unitCount = 0 \<longrightarrow> NewGPUNode room ni = Inl IntegerDivideByZero"
    using gpu mem by (simp add: NewGPUNode_def Let_def int64_quo_def)
  have range: "unitCount < 0 \<or> maxAlloc < unitCount * ptrSize \<longrightarrow>
          NewGPUNode room ni = Inl MakesliceLenOutOfRange"
  proof
    assume a: "unitCount < 0 \<or> maxAlloc < unitCount * ptrSize"
    then have "unitCount \<noteq> 0" by (auto simp: maxAlloc_def)
    with a gpu mem show "NewGPUNode room ni = Inl MakesliceLenOutOfRange"
      by (simp add: NewGPUNode_def Let_def int64_quo_def NewQuantity_def constructGPUs_def)
  qed
  have oom: "0 < unitCount \<and> unitCount * ptrSize \<le> maxAlloc \<and> room < unitCount \<longrightarrow>
          NewGPUNode room ni = Inl FatalOutOfMemory"
    using gpu mem
    by (simp add: NewGPUNode_def Let_def int64_quo_def NewQuantity_def constructGPUs_def)
  have oob: "0 < unitCount \<and> unitCount * ptrSize \<le> maxAlloc \<and> unitCount \<le> room \<and>
          (\<exists>p \<in> set (Pods ni). declares p \<and>
             (\<exists>i. Atoi (fst (annotation p GPUIndexAnnotationKey)) = Some i \<and>
                  \<not> (0 \<le> i \<and> i < unitCount))) \<longrightarrow>
            NewGPUNode room ni = Inl IndexOutOfRange"
  proof
    assume a: "0 < unitCount \<and> unitCount * ptrSize \<le> maxAlloc \<and> unitCount \<le> room \<and>
          (\<exists>p \<in> set (Pods ni). declares p \<and>
             (\<exists>i. Atoi (fst (annotation p GPUIndexAnnotationKey)) = Some i \<and>
                  \<not> (0 \<le> i \<and> i < unitCount)))"
    then obtain p i where p: "p \<in> set (Pods ni)" "declares p"
      "Atoi (fst (annotation p GPUIndexAnnotationKey)) = Some i"
      "\<not> (0 \<le> i \<and> i < unitCount)" by blast
    from a have b: "0 < unitCount" "unitCount * ptrSize \<le> maxAlloc" "unitCount \<le> room"
      by simp_all
    from p(4) b(1) len0 have "\<not> (0 \<le> i \<and> i < int (length gs0))" by simp
    from place_pods_out_of_range [OF p(1,2,3) this]
    have "place_pods (Pods ni) (gs0, h0) = Inl IndexOutOfRange" .
    then show "NewGPUNode room ni = Inl IndexOutOfRange"
      using init by (simp add: NewGPUNode_unfold [OF gpu mem b])
  qed
  from total zero range oom oob show ?thesis by blast
qed

text \<open>
  The machine with two units is built in a process with room for 1024 units and ends in
  the fatal error in one with room for a single unit. A unit count of 0 panics, and so
  do a count of -1, a count of \<open>10 ^ 18\<close> (1 with scale 18), and a placed workload that
  names unit 2.
\<close>

theorem construction_completes_witness:
  "AsInt64 (allocatable node_two_units GPUResourceName) = Some 2
   \<and> AsInt64 (allocatable node_two_units MemResourceName) = Some 16
   \<and> (0::int) < 2 \<and> 2 * ptrSize \<le> maxAlloc \<and> (2::int) \<le> 1024
   \<and> list_all (\<lambda>p. Atoi (fst (annotation p GPUIndexAnnotationKey)) = Some 1)
        (Pods node_two_units)
   \<and> (\<exists>n h. NewGPUNode 1024 node_two_units = Inr (n, h))
   \<and> NewGPUNode 1 node_two_units = Inl FatalOutOfMemory
   \<and> AsInt64 (allocatable (machine (whole 0) (whole 16) []) GPUResourceName) = Some 0
   \<and> NewGPUNode 1024 (machine (whole 0) (whole 16) []) = Inl IntegerDivideByZero
   \<and> AsInt64 (allocatable (machine (whole (- 1)) (whole 16) []) GPUResourceName) = Some (- 1)
   \<and> NewGPUNode 1024 (machine (whole (- 1)) (whole 16) []) = Inl MakesliceLenOutOfRange
   \<and> AsInt64 (allocatable (machine (Int64Amount 1 18) (whole 16) []) GPUResourceName)
        = Some (10 ^ 18)
   \<and> maxAlloc < 10 ^ 18 * ptrSize
   \<and> NewGPUNode (10 ^ 18) (machine (Int64Amount 1 18) (whole 16) [])
        = Inl MakesliceLenOutOfRange
   \<and> list_all (\<lambda>p. declares p \<and> Atoi (fst (annotation p GPUIndexAnnotationKey)) = Some 2)
        (Pods node_bad_index)
   \<and> NewGPUNode 1024 node_bad_index = Inl IndexOutOfRange"
proof -
  have sz: "2 * ptrSize \<le> maxAlloc" "maxAlloc < 10 ^ 18 * ptrSize"
    by (simp_all add: ptrSize_def maxAlloc_def)
  have g: "AsInt64 (allocatable node_two_units GPUResourceName) = Some 2" by code_simp
  have m: "AsInt64 (allocatable node_two_units MemResourceName) = Some 16" by code_simp
  have a: "list_all (\<lambda>p. Atoi (fst (annotation p GPUIndexAnnotationKey)) = Some 1)
        (Pods node_two_units)" by code_simp
  then have a': "\<forall>p \<in> set (Pods node_two_units). \<forall>i.
      Atoi (fst (annotation p GPUIndexAnnotationKey)) = Some i \<longrightarrow> 0 \<le> i \<and> i < 2"
    by (simp add: list_all_iff)
  from construction_completes [OF g m, where room = 1024] a' sz(1)
  have ok: "\<exists>n h. NewGPUNode 1024 node_two_units = Inr (n, h)" by simp
  from construction_completes [OF g m, where room = 1] sz(1)
  have oom: "NewGPUNode 1 node_two_units = Inl FatalOutOfMemory" by simp
  have g0: "AsInt64 (allocatable (machine (whole 0) (whole 16) []) GPUResourceName) = Some 0"
    by code_simp
  have m0: "AsInt64 (allocatable (machine (whole 0) (whole 16) []) MemResourceName) = Some 16"
    by code_simp
  from construction_completes [OF g0 m0, where room = 1024]
  have zero: "NewGPUNode 1024 (machine (whole 0) (whole 16) []) = Inl IntegerDivideByZero"
    by simp
  have g1: "AsInt64 (allocatable (machine (whole (- 1)) (whole 16) []) GPUResourceName)
      = Some (- 1)"
    by code_simp
  have m1: "AsInt64 (allocatable (machine (whole (- 1)) (whole 16) []) MemResourceName)
      = Some 16"
    by code_simp
  from construction_completes [OF g1 m1, where room = 1024]
  have neg: "NewGPUNode 1024 (machine (whole (- 1)) (whole 16) []) = Inl MakesliceLenOutOfRange"
    by simp
  have g3: "AsInt64 (allocatable (machine (Int64Amount 1 18) (whole 16) []) GPUResourceName)
      = Some (10 ^ 18)"
    by code_simp
  have m3: "AsInt64 (allocatable (machine (Int64Amount 1 18) (whole 16) []) MemResourceName)
      = Some 16"
    by code_simp
  from construction_completes [OF g3 m3, where room = "10 ^ 18"] sz(2)
  have huge: "NewGPUNode (10 ^ 18) (machine (Int64Amount 1 18) (whole 16) [])
      = Inl MakesliceLenOutOfRange"
    by simp
  have g2: "AsInt64 (allocatable node_bad_index GPUResourceName) = Some 2" by code_simp
  have m2: "AsInt64 (allocatable node_bad_index MemResourceName) = Some 16" by code_simp
  have b: "list_all (\<lambda>p. declares p \<and> Atoi (fst (annotation p GPUIndexAnnotationKey)) = Some 2)
        (Pods node_bad_index)" by code_simp
  have ne: "Pods node_bad_index \<noteq> []" by (simp add: node_bad_index_def machine_def)
  from b ne have "\<exists>p \<in> set (Pods node_bad_index). declares p \<and>
      (\<exists>i. Atoi (fst (annotation p GPUIndexAnnotationKey)) = Some i \<and> \<not> (0 \<le> i \<and> i < 2))"
    by (cases "Pods node_bad_index") auto
  with construction_completes [OF g2 m2, where room = 1024] sz(1)
  have oob: "NewGPUNode 1024 node_bad_index = Inl IndexOutOfRange" by simp
  from g m a ok oom g0 zero g1 neg g3 huge b oob sz show ?thesis by simp
qed

text \<open>
  C9 as stated fails. The unit count is 2 and no workload is placed, yet 16.5 bytes of
  memory make the construction panic. The unit count is \<open>10 ^ 18\<close> and no workload is
  placed, yet the construction panics when the unit slice is made.
\<close>

theorem construction_panics_within_preconditions:
  "AsInt64 (allocatable (machine (whole 2) (Int64Amount 165 (- 1)) []) GPUResourceName) = Some 2
   \<and> Pods (machine (whole 2) (Int64Amount 165 (- 1)) []) = []
   \<and> NewGPUNode 1024 (machine (whole 2) (Int64Amount 165 (- 1)) [])
       = Inl InvalidMemoryResourceFormat
   \<and> AsInt64 (allocatable (machine (Int64Amount 1 18) (whole 16) []) GPUResourceName)
       = Some (10 ^ 18)
   \<and> Pods (machine (Int64Amount 1 18) (whole 16) []) = []
   \<and> NewGPUNode (10 ^ 18) (machine (Int64Amount 1 18) (whole 16) [])
       = Inl MakesliceLenOutOfRange"
  by (simp add: machine_def) code_simp

section \<open>The shared-memory fit on a machine with one loaded unit\<close>

text \<open>
  C1. On the machine with two units of 8 bytes, unit 1 holding 3, a request of 2 leaves
  a headroom of 6 on unit 0 and of 3 on unit 1: ordered by headroom the candidates are
  1, 0. \<^verbatim>\<open>MemAssumeFitIndexes\<close> returns 0, 1: every fit's \<^verbatim>\<open>remain\<close> is the one shared
  capacity cell, so the sort compares a quantity with itself.
\<close>

theorem shared_fit_not_by_headroom:
  "NewGPUNode 1024 node_two_units = Inr (two_units, [8, 0, 3])
   \<and> capacities (two_units, [8, 0, 3]) = [8, 8]
   \<and> usedAll (two_units, [8, 0, 3]) = [0, 3]
   \<and> map (headroom [8, 0, 3] 2) (gpus two_units) = [6, 3]
   \<and> MemFit_spec two_units [8, 0, 3] 2 = [1, 0]
   \<and> fst (MemAssumeFitIndexes two_units [8, 0, 3] 2) = [0, 1]"
  by code_simp

text \<open>
  C2. The same call adds the request to every unit's used bytes (0, 3 become 2, 5) and
  subtracts from the shared capacity cell (8 becomes 1); a second call on the model
  finds no candidate.
\<close>

theorem shared_fit_writes_model:
  "MemAssumeFitIndexes two_units [8, 0, 3] 2 = ([0, 1], [1, 2, 5])
   \<and> usedAll (two_units, [8, 0, 3]) = [0, 3]
   \<and> usedAll (two_units, [1, 2, 5]) = [2, 5]
   \<and> capacities (two_units, [8, 0, 3]) = [8, 8]
   \<and> capacities (two_units, [1, 2, 5]) = [1, 1]
   \<and> MemAssumeFitIndexes two_units [1, 2, 5] 2 = ([], [1, 4, 7])"
  by code_simp

text \<open>
  C5. \<^verbatim>\<open>Reserve\<close> for a shared request of 2 on that machine records the index 0, the
  first element of the fit finder's list, while the best fit is unit 1.
\<close>

theorem Reserve_shared_first_not_best:
  "Reserve 1024 (single_machine node_two_units) (shared_pod (whole 2) None) ''node''
     = Inr (None, set_index (shared_pod (whole 2) None) 0)
   \<and> annotation (set_index (shared_pod (whole 2) None) 0) GPUIndexAnnotationKey = (''0'', True)
   \<and> map (headroom [8, 0, 3] 2) (gpus two_units) = [6, 3]
   \<and> Itoa (hd (MemFit_spec two_units [8, 0, 3] 2)) = ''1''"
proof -
  have "annotation (set_index (shared_pod (whole 2) None) 0) GPUIndexAnnotationKey = (''0'', True)
   \<and> map (headroom [8, 0, 3] 2) (gpus two_units) = [6, 3]
   \<and> Itoa (hd (MemFit_spec two_units [8, 0, 3] 2)) = ''1''"
    by code_simp
  with Reserve_shared_two_units show ?thesis by simp
qed

end
